theory Spec2Isabelle
  imports Complex_Main "HOL-Library.AList" "HOL-Library.Sublist"
begin

unbundle bit_operations_syntax

section \<open>Exceptions\<close>

text \<open>
  The exceptions the modelled code can see. All of them derive from Python's
  \<^verbatim>\<open>Exception\<close>, so an \<^verbatim>\<open>except Exception\<close> clause catches each of them.
  \<open>External n\<close> stands for an exception raised by a collaborator outside the
  repository (geopy, osmnx, the renderer), identified by a token.
\<close>

datatype exn =
    TypeError
  | ValueError
  | KeyError
  | OSError
  | UnpicklingError
  | JSONDecodeError
  | External nat

section \<open>src/utils.py: retry\_call\<close>

text \<open>
  \<open>retry_call\<close> invokes a callable without arguments. The callable is modelled by
  the outcome of each of its invocations: \<open>func i\<close> is what the \<open>i\<close>-th invocation
  (counted from 1) does, \<open>Inl e\<close> when it raises \<open>e\<close> and \<open>Inr v\<close> when it returns
  \<open>v\<close>. The tuple \<^verbatim>\<open>exceptions\<close> is the predicate \<open>exceptions\<close> on raised
  exceptions. Delays are exact rationals; Python computes the same expression in
  double precision.

  What the call does besides returning is recorded, in order, as a list of events.
\<close>

datatype retry_event =
    Invoked nat
  | Printed nat rat exn
  | Slept rat

text \<open>\<^verbatim>\<open>time.sleep\<close> raises \<^verbatim>\<open>ValueError\<close> on a negative argument.\<close>

definition time_sleep :: "rat \<Rightarrow> exn + retry_event list" where
  "time_sleep wait = (if wait < 0 then Inl ValueError else Inr [Slept wait])"

text \<open>
  The loop \<^verbatim>\<open>for attempt in range(1, max_retries + 1)\<close>, entered at \<open>attempt\<close>
  with the current value of \<^verbatim>\<open>last_exc\<close>. After the loop,
  \<^verbatim>\<open>raise last_exc\<close> with \<^verbatim>\<open>last_exc = None\<close> is a \<^verbatim>\<open>TypeError\<close>.
\<close>

function retry_loop ::
  "(nat \<Rightarrow> exn + 'a) \<Rightarrow> int \<Rightarrow> rat \<Rightarrow> rat \<Rightarrow> (exn \<Rightarrow> bool) \<Rightarrow> int \<Rightarrow> exn option
    \<Rightarrow> (exn + 'a) \<times> retry_event list" where
  "retry_loop func max_retries base_sleep backoff_factor exceptions attempt last_exc =
     (if attempt > max_retries then
        (case last_exc of None \<Rightarrow> (Inl TypeError, []) | Some e \<Rightarrow> (Inl e, []))
      else
        (case func (nat attempt) of
           Inr v \<Rightarrow> (Inr v, [Invoked (nat attempt)])
         | Inl e \<Rightarrow>
             if exceptions e then
               (if attempt = max_retries then (Inl e, [Invoked (nat attempt)])
                else
                  (let wait = base_sleep * (backoff_factor ^ nat (attempt - 1)) in
                   case time_sleep wait of
                     Inl e' \<Rightarrow>
                       (Inl e', [Invoked (nat attempt), Printed (nat attempt) wait e])
                   | Inr slept \<Rightarrow>
                       (let (r, evs) = retry_loop func max_retries base_sleep backoff_factor
                                         exceptions (attempt + 1) (Some e)
                        in (r, [Invoked (nat attempt), Printed (nat attempt) wait e]
                                 @ slept @ evs))))
             else (Inl e, [Invoked (nat attempt)])))"
  by pat_completeness auto
termination
  by (relation "measure (\<lambda>(func, max_retries, base_sleep, backoff_factor, exceptions,
        attempt, last_exc). nat (max_retries + 1 - attempt))") auto

declare retry_loop.simps [simp del]

definition retry_call ::
  "(nat \<Rightarrow> exn + 'a) \<Rightarrow> int \<Rightarrow> rat \<Rightarrow> rat \<Rightarrow> (exn \<Rightarrow> bool)
    \<Rightarrow> (exn + 'a) \<times> retry_event list" where
  "retry_call func max_retries base_sleep backoff_factor exceptions =
     retry_loop func max_retries base_sleep backoff_factor exceptions 1 None"




section \<open>Python strings and numbers\<close>

text \<open>
  A Python \<^verbatim>\<open>str\<close> is modelled as a \<open>string\<close> whose characters are the code points
  below 256 (ASCII and Latin-1). On these, \<^verbatim>\<open>str.lower\<close> maps \<open>A\<close>-\<open>Z\<close> and the
  capital letters \<open>0xC0\<close>-\<open>0xDE\<close> other than the multiplication sign \<open>0xD7\<close> to the
  code point 32 above and leaves every other character as it is, and
  \<^verbatim>\<open>str.encode\<close> (UTF-8) writes a code point below 128 as one byte and the others
  as two.
\<close>

definition lower_char :: "char \<Rightarrow> char" where
  "lower_char c =
     (let n = (of_char c :: nat) in
      if (65 \<le> n \<and> n \<le> 90) \<or> (192 \<le> n \<and> n \<le> 222 \<and> n \<noteq> 215)
      then char_of (n + 32) else c)"

definition py_lower :: "string \<Rightarrow> string" where
  "py_lower s = map lower_char s"

definition encode_char :: "char \<Rightarrow> int list" where
  "encode_char c =
     (let n = (of_char c :: int) in
      if n < 128 then [n] else [192 + n div 64, 128 + n mod 64])"

definition encode :: "string \<Rightarrow> int list" where
  "encode s = concat (map encode_char s)"

text \<open>\<^verbatim>\<open>str(n)\<close> of an integer, as an f-string writes it.\<close>

definition digit_char :: "int \<Rightarrow> char" where
  "digit_char d = char_of (48 + d)"

function dec :: "int \<Rightarrow> string" where
  "dec n = (if n < 10 then [digit_char n] else dec (n div 10) @ [digit_char (n mod 10)])"
  by pat_completeness auto
termination
  by (relation "measure nat") auto

declare dec.simps [simp del]

definition str_int :: "int \<Rightarrow> string" where
  "str_int n = (if n < 0 then CHR ''-'' # dec (- n) else dec n)"

text \<open>
  A Python \<^verbatim>\<open>float\<close> is its sign and the exact rational magnitude of the double, or
  an infinity, or not a number. The format \<^verbatim>\<open>:.6f\<close> rounds the exact value to six
  decimals, ties to even, and keeps the sign also of a negative zero.
\<close>

datatype pyfloat = Finite bool rat | Infinite bool | NaN

definition round_half_even :: "rat \<Rightarrow> int" where
  "round_half_even q =
     (let f = \<lfloor>q\<rfloor>; r = q - of_int f in
      if r < 1 / 2 then f
      else if 1 / 2 < r then f + 1
      else if even f then f else f + 1)"

definition pad6 :: "string \<Rightarrow> string" where
  "pad6 s = replicate (6 - length s) (CHR ''0'') @ s"

definition format_6f :: "pyfloat \<Rightarrow> string" where
  "format_6f x =
     (case x of
        NaN \<Rightarrow> ''nan''
      | Infinite neg \<Rightarrow> (if neg then ''-inf'' else ''inf'')
      | Finite neg m \<Rightarrow>
          (let n = round_half_even (\<bar>m\<bar> * 1000000) in
           (if neg then ''-'' else []) @ dec (n div 1000000) @ ''.''
             @ pad6 (dec (n mod 1000000))))"

section \<open>hashlib.sha256\<close>

text \<open>
  SHA-256 (FIPS 180-4) as \<^verbatim>\<open>hashlib.sha256(data).hexdigest()\<close> computes it. A 32-bit
  word is an \<open>int\<close> in \<open>0..<2^32\<close>; \<open>m32\<close> is the wrap-around of the 32-bit
  addition and of the left shift.
\<close>

type_synonym u32 = int

definition m32 :: "int \<Rightarrow> u32" where
  "m32 x = x AND 0xFFFFFFFF"

definition rotr :: "nat \<Rightarrow> u32 \<Rightarrow> u32" where
  "rotr n x = drop_bit n x OR m32 (push_bit (32 - n) x)"

definition ch :: "u32 \<Rightarrow> u32 \<Rightarrow> u32 \<Rightarrow> u32" where
  "ch x y z = (x AND y) XOR ((x XOR 0xFFFFFFFF) AND z)"

definition maj :: "u32 \<Rightarrow> u32 \<Rightarrow> u32 \<Rightarrow> u32" where
  "maj x y z = (x AND y) XOR (x AND z) XOR (y AND z)"

definition bsig0 :: "u32 \<Rightarrow> u32" where
  "bsig0 x = rotr 2 x XOR rotr 13 x XOR rotr 22 x"

definition bsig1 :: "u32 \<Rightarrow> u32" where
  "bsig1 x = rotr 6 x XOR rotr 11 x XOR rotr 25 x"

definition ssig0 :: "u32 \<Rightarrow> u32" where
  "ssig0 x = rotr 7 x XOR rotr 18 x XOR drop_bit 3 x"

definition ssig1 :: "u32 \<Rightarrow> u32" where
  "ssig1 x = rotr 17 x XOR rotr 19 x XOR drop_bit 10 x"

definition sha_K :: "u32 list" where
  "sha_K =
    [1116352408, 1899447441, 3049323471, 3921009573, 961987163, 1508970993, 2453635748,
     2870763221, 3624381080, 310598401, 607225278, 1426881987, 1925078388, 2162078206,
     2614888103, 3248222580, 3835390401, 4022224774, 264347078, 604807628, 770255983,
     1249150122, 1555081692, 1996064986, 2554220882, 2821834349, 2952996808, 3210313671,
     3336571891, 3584528711, 113926993, 338241895, 666307205, 773529912, 1294757372,
     1396182291, 1695183700, 1986661051, 2177026350, 2456956037, 2730485921, 2820302411,
     3259730800, 3345764771, 3516065817, 3600352804, 4094571909, 275423344, 430227734,
     506948616, 659060556, 883997877, 958139571, 1322822218, 1537002063, 1747873779,
     1955562222, 2024104815, 2227730452, 2361852424, 2428436474, 2756734187, 3204031479,
     3329325298]"

datatype hstate = HS u32 u32 u32 u32 u32 u32 u32 u32

definition sha_H0 :: hstate where
  "sha_H0 = HS 1779033703 3144134277 1013904242 2773480762
               1359893119 2600822924 528734635 1541459225"

fun sha_round :: "u32 \<Rightarrow> u32 \<Rightarrow> hstate \<Rightarrow> hstate" where
  "sha_round k w (HS a b c d e f g h) =
     (let t1 = m32 (h + bsig1 e + ch e f g + k + w);
          t2 = m32 (bsig0 a + maj a b c)
      in HS (m32 (t1 + t2)) a b c (m32 (d + t1)) e f g)"

text \<open>The next word of the message schedule, from the sixteen words before it.\<close>

fun next_w :: "u32 list \<Rightarrow> u32" where
  "next_w (w0 # w1 # w2 # w3 # w4 # w5 # w6 # w7 # w8 # w9 # w10 # w11 # w12 # w13 # w14 # ws)
     = m32 (ssig1 w14 + w9 + ssig0 w1 + w0)"
| "next_w ws = 0"

text \<open>
  One round for each constant. The window starts as the sixteen words of the block and
  always holds the schedule from the current round on.
\<close>

fun rounds :: "u32 list \<Rightarrow> u32 list \<Rightarrow> hstate \<Rightarrow> hstate" where
  "rounds [] ws st = st"
| "rounds (k # ks) [] st = st"
| "rounds (k # ks) (w # ws) st = rounds ks (ws @ [next_w (w # ws)]) (sha_round k w st)"

fun hadd :: "hstate \<Rightarrow> hstate \<Rightarrow> hstate" where
  "hadd (HS a b c d e f g h) (HS a' b' c' d' e' f' g' h') =
     HS (m32 (a + a')) (m32 (b + b')) (m32 (c + c')) (m32 (d + d'))
        (m32 (e + e')) (m32 (f + f')) (m32 (g + g')) (m32 (h + h'))"

definition compress :: "hstate \<Rightarrow> u32 list \<Rightarrow> hstate" where
  "compress st block = hadd st (rounds sha_K block st)"

fun be32 :: "int list \<Rightarrow> u32 list" where
  "be32 (b0 # b1 # b2 # b3 # bs) =
     (push_bit 24 b0 OR push_bit 16 b1 OR push_bit 8 b2 OR b3) # be32 bs"
| "be32 bs = []"

definition be64 :: "int \<Rightarrow> int list" where
  "be64 n = map (\<lambda>i. drop_bit (8 * i) n AND 0xFF) [7, 6, 5, 4, 3, 2, 1, 0]"

definition pad :: "int list \<Rightarrow> int list" where
  "pad msg = msg @ [0x80] @ replicate ((119 - length msg mod 64) mod 64) 0
               @ be64 (8 * int (length msg))"

function blocks :: "u32 list \<Rightarrow> hstate \<Rightarrow> hstate" where
  "blocks ws st =
     (if length ws < 16 then st else blocks (drop 16 ws) (compress st (take 16 ws)))"
  by pat_completeness auto
termination
  by (relation "measure (\<lambda>(ws, st). length ws)") auto

declare blocks.simps [simp del]

definition sha256 :: "int list \<Rightarrow> hstate" where
  "sha256 msg = blocks (be32 (pad msg)) sha_H0"

definition hex_digit :: "int \<Rightarrow> char" where
  "hex_digit n = ''0123456789abcdef'' ! nat (n mod 16)"

definition hex32 :: "u32 \<Rightarrow> string" where
  "hex32 w = map (\<lambda>i. hex_digit (drop_bit (4 * i) w)) [7, 6, 5, 4, 3, 2, 1, 0]"

fun hexdigest :: "hstate \<Rightarrow> string" where
  "hexdigest (HS a b c d e f g h) =
     hex32 a @ hex32 b @ hex32 c @ hex32 d @ hex32 e @ hex32 f @ hex32 g @ hex32 h"

definition sha256_hexdigest :: "string \<Rightarrow> string" where
  "sha256_hexdigest s = hexdigest (sha256 (encode s))"

section \<open>Key derivation: src/cache.py and src/output\_cache.py\<close>

text \<open>
  \<^verbatim>\<open>_make_cache_key\<close> of src/cache.py, and below it \<^verbatim>\<open>_make_output_key\<close>.
  The names lose their leading underscore, which an Isabelle name cannot have, and the
  parameter \<^verbatim>\<open>size\<close> is \<open>psize\<close>, \<open>size\<close> being a constant of HOL.
\<close>

definition make_cache_key :: "pyfloat \<Rightarrow> pyfloat \<Rightarrow> int \<Rightarrow> string" where
  "make_cache_key lat lon distance =
     (let input_str = format_6f lat @ ''|'' @ format_6f lon @ ''|'' @ str_int distance
      in take 16 (sha256_hexdigest input_str))"

text \<open>\<^verbatim>\<open>_make_output_key\<close> of src/output\_cache.py.\<close>

definition make_output_key ::
  "string \<Rightarrow> string \<Rightarrow> string \<Rightarrow> int \<Rightarrow> string \<Rightarrow> int \<Rightarrow> string \<Rightarrow> string" where
  "make_output_key city country theme distance psize dpi format =
     (let key_str = py_lower city @ ''|'' @ py_lower country @ ''|'' @ py_lower theme @ ''|''
                      @ str_int distance @ ''|'' @ py_lower psize @ ''|'' @ str_int dpi @ ''|''
                      @ py_lower format
      in take 16 (sha256_hexdigest key_str))"




section \<open>Paths, files and the world of a run\<close>

text \<open>
  A \<^verbatim>\<open>pathlib.Path\<close> (POSIX) is the list of its components. \<open>path_div p s\<close> is
  \<^verbatim>\<open>p / s\<close> for a string \<open>s\<close>: an absolute \<open>s\<close> replaces \<open>p\<close>, and empty components
  and \<open>.\<close> are dropped (a string that starts with exactly two slashes, whose root
  pathlib keeps apart, is not distinguished). \<open>relative_to\<close> raises \<^verbatim>\<open>ValueError\<close> unless the second
  path is a prefix of the first. \<open>path_str\<close> is \<^verbatim>\<open>str\<close> of a relative path.
\<close>

type_synonym path = "string list"

fun split_slash :: "string \<Rightarrow> string list" where
  "split_slash [] = [[]]"
| "split_slash (c # cs) =
     (if c = CHR ''/'' then [] # split_slash cs
      else (case split_slash cs of x # xs \<Rightarrow> (c # x) # xs | [] \<Rightarrow> [[c]]))"

definition path_parts :: "string \<Rightarrow> path" where
  "path_parts s = filter (\<lambda>c. c \<noteq> [] \<and> c \<noteq> ''.'') (split_slash s)"

definition path_div :: "path \<Rightarrow> string \<Rightarrow> path" where
  "path_div p s = (if take 1 s = ''/'' then path_parts s else p @ path_parts s)"

fun join_slash :: "string list \<Rightarrow> string" where
  "join_slash [] = []"
| "join_slash [x] = x"
| "join_slash (x # y # ys) = x @ ''/'' @ join_slash (y # ys)"

definition path_str :: "path \<Rightarrow> string" where
  "path_str rel = (if rel = [] then ''.'' else join_slash rel)"

definition relative_to :: "path \<Rightarrow> path \<Rightarrow> exn + path" where
  "relative_to p other =
     (if take (length other) p = other then Inr (drop (length other) p) else Inl ValueError)"

text \<open>
  What \<^verbatim>\<open>json.load\<close> returns: any JSON value, \<open>JNull\<close> being Python's
  \<^verbatim>\<open>None\<close> and \<open>JDict\<close> a \<^verbatim>\<open>dict\<close> in insertion order.
\<close>

datatype json =
    JNull
  | JBool bool
  | JInt int
  | JFloat pyfloat
  | JStr string
  | JList "json list"
  | JDict "(string \<times> json) list"

text \<open>
  What \<^verbatim>\<open>pickle.load\<close> returns. The graph and the feature collections are opaque
  to this layer: \<open>PyOpaque n\<close> is such an object, identified by a token; \<open>PyTuple\<close>
  is a tuple.
\<close>

datatype pyobj = PyNone | PyOpaque nat | PyTuple "pyobj list"

text \<open>
  A file holds the JSON text of a value, the pickle of an object, or other bytes (an
  image, a truncated or damaged file); a path can also be a directory. Serialisation is
  not modelled further: \<^verbatim>\<open>json.load\<close> of what \<^verbatim>\<open>json.dump\<close> wrote gives the
  value back, and so does \<^verbatim>\<open>pickle.load\<close> after \<^verbatim>\<open>pickle.dump\<close>; unpickling
  has no effect besides its result.
\<close>

datatype fcontent = Directory | JsonText json | PickleBytes pyobj | OtherBytes

text \<open>
  What the environment does to an attempt to write a file: it is written; or it cannot
  be opened and stays as it was; or the write fails after opening, which leaves a
  truncated file behind.
\<close>

datatype write_outcome = Written | Open_failed | Write_failed

datatype source = Geocoder | Graph_fetch | Water_fetch | Parks_fetch

datatype message =
    Index_corrupted
  | Index_save_failed exn
  | Using_cached_map_data string
  | Cache_load_failed exn
  | Cached_map_data string
  | Cache_save_failed exn
  | Loaded_map_data_from_cache
  | Fetching_map_data
  | All_layers_fetched
  | Already_generated
  | Report_file string
  | Report_generated json
  | Cache_cleared
  | Loaded_from_cache
  | Successfully_created
  | Error_during_generation exn

text \<open>
  The actions of a run, in order: a line printed, what \<open>retry_call\<close> did for a
  collaborator, a pause between two layers, a lookup in the output registry under a key,
  an attempt to write a file with its content and outcome, the removal of a file, a call
  of the renderer.
\<close>

datatype event =
    Print message
  | Retry source retry_event
  | Pause rat
  | Lookup string
  | Write path fcontent write_outcome
  | Unlink path
  | Render path

record world =
  fs :: "path \<rightharpoonup> fcontent"
  events :: "event list"
  n_writes :: nat

text \<open>
  What a run does not control: where the project is and where the process runs, the
  clock, the outcome of the \<open>i\<close>-th write attempt of the run (counted from 0), and the
  outcome of each invocation of the collaborators.
\<close>

record env =
  root_dir :: path
  cwd :: path
  now_iso :: string
  now_stamp :: string
  write_fate :: "nat \<Rightarrow> write_outcome"
  geocode :: "nat \<Rightarrow> exn + (pyfloat \<times> pyfloat) option"
  graph_from_point :: "nat \<Rightarrow> exn + pyobj"
  water_features :: "nat \<Rightarrow> exn + pyobj"
  parks_features :: "nat \<Rightarrow> exn + pyobj"
  render_outcome :: "exn + unit"

definition emit :: "event list \<Rightarrow> world \<Rightarrow> world" where
  "emit evs w = w\<lparr>events := events w @ evs\<rparr>"

definition print :: "message \<Rightarrow> world \<Rightarrow> world" where
  "print m w = emit [Print m] w"

definition path_exists :: "world \<Rightarrow> path \<Rightarrow> bool" where
  "path_exists w p = (fs w p \<noteq> None)"

text \<open>
  \<^verbatim>\<open>with p.open("w") as f: dump(content, f)\<close>. A directory cannot be opened for
  writing.
\<close>

definition write_file :: "env \<Rightarrow> path \<Rightarrow> fcontent \<Rightarrow> world \<Rightarrow> (exn + unit) \<times> world" where
  "write_file env p content w =
     (let fate = (if fs w p = Some Directory then Open_failed else write_fate env (n_writes w));
          w' = emit [Write p content fate] (w\<lparr>n_writes := Suc (n_writes w)\<rparr>)
      in case fate of
           Written \<Rightarrow> (Inr (), w'\<lparr>fs := (fs w')(p \<mapsto> content)\<rparr>)
         | Open_failed \<Rightarrow> (Inl OSError, w')
         | Write_failed \<Rightarrow> (Inl OSError, w'\<lparr>fs := (fs w')(p \<mapsto> OtherBytes)\<rparr>))"

text \<open>\<^verbatim>\<open>json.load\<close> and \<^verbatim>\<open>pickle.load\<close> on an opened file.\<close>

definition json_load :: "fcontent option \<Rightarrow> exn + json" where
  "json_load c =
     (case c of
        Some (JsonText j) \<Rightarrow> Inr j
      | Some Directory \<Rightarrow> Inl OSError
      | None \<Rightarrow> Inl OSError
      | _ \<Rightarrow> Inl JSONDecodeError)"

definition pickle_load :: "fcontent option \<Rightarrow> exn + pyobj" where
  "pickle_load c =
     (case c of
        Some (PickleBytes v) \<Rightarrow> Inr v
      | Some Directory \<Rightarrow> Inl OSError
      | None \<Rightarrow> Inl OSError
      | _ \<Rightarrow> Inl UnpicklingError)"

section \<open>src/config.py\<close>

definition INDEX_FILE :: "env \<Rightarrow> path" where
  "INDEX_FILE env = path_div (root_dir env) ''generated_posters.json''"

definition CACHE_DIR :: "env \<Rightarrow> path" where
  "CACHE_DIR env = path_div (root_dir env) ''.cache''"

definition POSTERS_DIR :: "env \<Rightarrow> path" where
  "POSTERS_DIR env = path_div (root_dir env) ''posters''"

section \<open>src/output\_cache.py\<close>

text \<open>
  The operations of Python the registry code applies to the loaded index: \<^verbatim>\<open>key in
  index\<close>, \<^verbatim>\<open>index[key]\<close> and \<^verbatim>\<open>index[key] = value\<close>, on whatever JSON value the
  file held.
\<close>

fun is_substring :: "string \<Rightarrow> string \<Rightarrow> bool" where
  "is_substring xs [] = (xs = [])"
| "is_substring xs (y # ys) = (take (length xs) (y # ys) = xs \<or> is_substring xs ys)"

definition py_contains :: "json \<Rightarrow> string \<Rightarrow> exn + bool" where
  "py_contains container k =
     (case container of
        JDict al \<Rightarrow> Inr (map_of al k \<noteq> None)
      | JList xs \<Rightarrow> Inr (List.member xs (JStr k))
      | JStr s \<Rightarrow> Inr (is_substring k s)
      | _ \<Rightarrow> Inl TypeError)"

definition py_getitem :: "json \<Rightarrow> string \<Rightarrow> exn + json" where
  "py_getitem container k =
     (case container of
        JDict al \<Rightarrow> (case map_of al k of Some v \<Rightarrow> Inr v | None \<Rightarrow> Inl KeyError)
      | _ \<Rightarrow> Inl TypeError)"

definition py_setitem :: "json \<Rightarrow> string \<Rightarrow> json \<Rightarrow> exn + json" where
  "py_setitem container k v =
     (case container of
        JDict al \<Rightarrow> Inr (JDict (AList.update k v al))
      | _ \<Rightarrow> Inl TypeError)"

definition load_output_index :: "env \<Rightarrow> world \<Rightarrow> json \<times> world" where
  "load_output_index env w =
     (if path_exists w (INDEX_FILE env) then
        (case json_load (fs w (INDEX_FILE env)) of
           Inr j \<Rightarrow> (j, w)
         | Inl e \<Rightarrow> (JDict [], print Index_corrupted w))
      else (JDict [], w))"

definition save_output_index :: "env \<Rightarrow> json \<Rightarrow> world \<Rightarrow> world" where
  "save_output_index env index w =
     (case write_file env (INDEX_FILE env) (JsonText index) w of
        (Inr u, w') \<Rightarrow> w'
      | (Inl e, w') \<Rightarrow> print (Index_save_failed e) w')"

definition check_previous_output ::
  "env \<Rightarrow> string \<Rightarrow> string \<Rightarrow> string \<Rightarrow> int \<Rightarrow> string \<Rightarrow> int \<Rightarrow> string \<Rightarrow> world
    \<Rightarrow> (exn + json) \<times> world" where
  "check_previous_output env city country theme distance psize dpi format w =
     (let (index, w1) = load_output_index env w;
          key = make_output_key city country theme distance psize dpi format;
          w2 = emit [Lookup key] w1
      in case py_contains index key of
           Inl e \<Rightarrow> (Inl e, w2)
         | Inr True \<Rightarrow> (py_getitem index key, w2)
         | Inr False \<Rightarrow> (Inr JNull, w2))"

definition output_record ::
  "string \<Rightarrow> string \<Rightarrow> string \<Rightarrow> string \<Rightarrow> string \<Rightarrow> int \<Rightarrow> string \<Rightarrow> int \<Rightarrow> string \<Rightarrow> json" where
  "output_record rel_path generated_at city country theme distance psize dpi format =
     JDict [(''path'', JStr rel_path),
            (''generated_at'', JStr generated_at),
            (''city'', JStr city),
            (''country'', JStr country),
            (''theme'', JStr theme),
            (''distance_m'', JInt distance),
            (''size'', JStr psize),
            (''dpi'', JInt dpi),
            (''format'', JStr format)]"

definition record_new_output ::
  "env \<Rightarrow> string \<Rightarrow> string \<Rightarrow> string \<Rightarrow> int \<Rightarrow> string \<Rightarrow> int \<Rightarrow> string \<Rightarrow> path \<Rightarrow> world
    \<Rightarrow> (exn + unit) \<times> world" where
  "record_new_output env city country theme distance psize dpi format output_path w =
     (let (index, w1) = load_output_index env w;
          key = make_output_key city country theme distance psize dpi format
      in case relative_to output_path (root_dir env) of
           Inl e \<Rightarrow> (Inl e, w1)
         | Inr rel \<Rightarrow>
             (case py_setitem index key
                     (output_record (path_str rel) (now_iso env) city country theme distance
                        psize dpi format) of
                Inl e \<Rightarrow> (Inl e, w1)
              | Inr index' \<Rightarrow> (Inr (), save_output_index env index' w1)))"

section \<open>src/cache.py\<close>

definition cache_path :: "env \<Rightarrow> string \<Rightarrow> path" where
  "cache_path env key = path_div (CACHE_DIR env) (key @ ''.pkl'')"

definition get_cached_data ::
  "env \<Rightarrow> pyfloat \<Rightarrow> pyfloat \<Rightarrow> int \<Rightarrow> world \<Rightarrow> (exn + pyobj) \<times> world" where
  "get_cached_data env lat lon distance w =
     (let key = make_cache_key lat lon distance;
          p = cache_path env key
      in if \<not> path_exists w p then (Inr PyNone, w)
         else (case pickle_load (fs w p) of
                 Inr data \<Rightarrow> (Inr data, print (Using_cached_map_data (take 8 key)) w)
               | Inl e \<Rightarrow> (Inr PyNone, print (Cache_load_failed e) w)))"

definition save_to_cache ::
  "env \<Rightarrow> pyfloat \<Rightarrow> pyfloat \<Rightarrow> int \<Rightarrow> pyobj \<Rightarrow> world \<Rightarrow> world" where
  "save_to_cache env lat lon distance data w =
     (let key = make_cache_key lat lon distance;
          p = cache_path env key
      in case write_file env p (PickleBytes data) w of
           (Inr u, w') \<Rightarrow> print (Cached_map_data (take 8 key)) w'
         | (Inl e, w') \<Rightarrow> print (Cache_save_failed e) w')"

section \<open>src/geocoding.py and src/map\_data.py\<close>

text \<open>
  A collaborator called through \<open>retry_call\<close> with \<^verbatim>\<open>exceptions\<close> containing
  \<^verbatim>\<open>Exception\<close> and the default \<^verbatim>\<open>backoff_factor=2.0\<close>; what the call did goes
  to the event list.
\<close>

definition retried ::
  "source \<Rightarrow> (nat \<Rightarrow> exn + 'a) \<Rightarrow> int \<Rightarrow> rat \<Rightarrow> world \<Rightarrow> (exn + 'a) \<times> world" where
  "retried src func max_retries base_sleep w =
     (let (r, evs) = retry_call func max_retries base_sleep 2 (\<lambda>e. True)
      in (r, emit (map (Retry src) evs) w))"

definition get_coordinates :: "env \<Rightarrow> world \<Rightarrow> (exn + pyfloat \<times> pyfloat) \<times> world" where
  "get_coordinates env w =
     (case retried Geocoder (geocode env) 4 (3 / 2) w of
        (Inl e, w') \<Rightarrow> (Inl e, w')
      | (Inr None, w') \<Rightarrow> (Inl ValueError, w')
      | (Inr (Some location), w') \<Rightarrow> (Inr location, w'))"

text \<open>The fetching block of \<open>fetch_map_data\<close>: the three layers, each retried.\<close>

definition fetching_block ::
  "env \<Rightarrow> pyfloat \<times> pyfloat \<Rightarrow> int \<Rightarrow> bool \<Rightarrow> world \<Rightarrow> (exn + pyobj) \<times> world" where
  "fetching_block env point distance use_cache w =
     (let w0 = print Fetching_map_data w in
      case retried Graph_fetch (graph_from_point env) 3 (3 / 2) w0 of
        (Inl e, w1) \<Rightarrow> (Inl e, w1)
      | (Inr G, w1) \<Rightarrow>
          (case retried Water_fetch (water_features env) 3 1 (emit [Pause (3 / 2)] w1) of
             (Inl e, w2) \<Rightarrow> (Inl e, w2)
           | (Inr water, w2) \<Rightarrow>
               (case retried Parks_fetch (parks_features env) 3 1 (emit [Pause (4 / 5)] w2) of
                  (Inl e, w3) \<Rightarrow> (Inl e, w3)
                | (Inr parks, w3) \<Rightarrow>
                    (let result = PyTuple [G, water, parks];
                         w4 = print All_layers_fetched w3
                     in if use_cache
                        then (Inr result,
                              save_to_cache env (fst point) (snd point) distance result w4)
                        else (Inr result, w4)))))"

definition fetch_map_data ::
  "env \<Rightarrow> pyfloat \<times> pyfloat \<Rightarrow> int \<Rightarrow> bool \<Rightarrow> world \<Rightarrow> (exn + pyobj) \<times> world" where
  "fetch_map_data env point distance use_cache w =
     (if use_cache then
        (case get_cached_data env (fst point) (snd point) distance w of
           (Inl e, w1) \<Rightarrow> (Inl e, w1)
         | (Inr cached, w1) \<Rightarrow>
             if cached \<noteq> PyNone then (Inr cached, print Loaded_map_data_from_cache w1)
             else fetching_block env point distance use_cache w1)
      else fetching_block env point distance use_cache w)"

section \<open>src/output.py\<close>

definition generate_output_filename :: "env \<Rightarrow> string \<Rightarrow> string \<Rightarrow> string \<Rightarrow> path" where
  "generate_output_filename env city theme_name output_format =
     (let city_slug =
            filter (\<lambda>c. c \<noteq> CHR '','' \<and> c \<noteq> CHR 0x27)
              (map (\<lambda>c. if c = CHR '' '' then CHR ''_'' else c) (py_lower city));
          filename = city_slug @ ''_'' @ theme_name @ ''_'' @ now_stamp env @ ''.''
                       @ py_lower output_format
      in path_div (POSTERS_DIR env) filename)"

section \<open>main.py\<close>

text \<open>
  The generation flow of \<open>main\<close>, from the geocoding on: the arguments are parsed and
  the derived parameters (effective dpi, scaled and clamped distance) are resolved. The
  theme loader never raises and the logger only writes its own log file; neither is part
  of the model. The renderer is a collaborator: it raises, or writes the poster file.
\<close>

record args =
  arg_city :: string
  arg_country :: string
  arg_theme :: string
  arg_distance :: int
  arg_size :: string
  arg_format :: string
  arg_no_cache :: bool

text \<open>Unpacking \<^verbatim>\<open>G, water, parks = data\<close>.\<close>

definition unpack3 :: "pyobj \<Rightarrow> exn + pyobj \<times> pyobj \<times> pyobj" where
  "unpack3 data =
     (case data of
        PyTuple [a, b, c] \<Rightarrow> Inr (a, b, c)
      | PyTuple xs \<Rightarrow> Inl ValueError
      | _ \<Rightarrow> Inl TypeError)"

text \<open>The handler \<^verbatim>\<open>except Exception as e\<close> of \<open>main\<close>: exit status 1.\<close>

definition fail :: "exn \<Rightarrow> world \<Rightarrow> int \<times> world" where
  "fail e w = (1, print (Error_during_generation e) w)"

text \<open>The report of an existing poster and \<^verbatim>\<open>sys.exit(0)\<close>.\<close>

definition report_existing :: "env \<Rightarrow> json \<Rightarrow> path \<Rightarrow> world \<Rightarrow> int \<times> world" where
  "report_existing env previous existing_path w =
     (let w1 = print Already_generated w in
      case relative_to existing_path (cwd env) of
        Inl e \<Rightarrow> fail e w1
      | Inr rel \<Rightarrow>
          (let w2 = print (Report_file (path_str rel)) w1 in
           case py_getitem previous ''generated_at'' of
             Inl e \<Rightarrow> fail e w2
           | Inr g \<Rightarrow> (0, print (Report_generated g) w2)))"

text \<open>The block under \<^verbatim>\<open>if args.no_cache\<close>.\<close>

definition clear_cache ::
  "env \<Rightarrow> pyfloat \<Rightarrow> pyfloat \<Rightarrow> int \<Rightarrow> world \<Rightarrow> (exn + unit) \<times> world" where
  "clear_cache env lat lon distance w =
     (let key = make_cache_key lat lon distance;
          p = cache_path env key
      in if path_exists w p then
           (if fs w p = Some Directory then (Inl OSError, w)
            else (Inr (), print Cache_cleared (emit [Unlink p] (w\<lparr>fs := (fs w)(p := None)\<rparr>))))
         else (Inr (), w))"

text \<open>The block that decides the source of the map data, once.\<close>

definition obtain_map_data ::
  "env \<Rightarrow> pyfloat \<times> pyfloat \<Rightarrow> int \<Rightarrow> world \<Rightarrow> (exn + pyobj \<times> pyobj \<times> pyobj) \<times> world" where
  "obtain_map_data env point distance w =
     (case get_cached_data env (fst point) (snd point) distance w of
        (Inl e, w1) \<Rightarrow> (Inl e, w1)
      | (Inr cached_data, w1) \<Rightarrow>
          if cached_data \<noteq> PyNone then
            (unpack3 cached_data, print Loaded_from_cache w1)
          else
            (case fetch_map_data env point distance True w1 of
               (Inl e, w2) \<Rightarrow> (Inl e, w2)
             | (Inr fetched, w2) \<Rightarrow>
                 (case unpack3 fetched of
                    Inl e \<Rightarrow> (Inl e, w2)
                  | Inr (G, water, parks) \<Rightarrow>
                      (Inr (G, water, parks),
                       save_to_cache env (fst point) (snd point) distance
                         (PyTuple [G, water, parks]) w2))))"

definition render_poster :: "env \<Rightarrow> path \<Rightarrow> world \<Rightarrow> (exn + unit) \<times> world" where
  "render_poster env output_path w =
     (let w1 = emit [Render output_path] w in
      case render_outcome env of
        Inl e \<Rightarrow> (Inl e, w1)
      | Inr u \<Rightarrow> (Inr (), w1\<lparr>fs := (fs w1)(output_path \<mapsto> OtherBytes)\<rparr>))"

text \<open>The run after a miss in the output registry: cache handling, render, record.\<close>

definition generate ::
  "env \<Rightarrow> args \<Rightarrow> int \<Rightarrow> pyfloat \<times> pyfloat \<Rightarrow> path \<Rightarrow> world \<Rightarrow> int \<times> world" where
  "generate env a effective_dpi point output_path w =
     (case (if arg_no_cache a
            then clear_cache env (fst point) (snd point) (arg_distance a) w
            else (Inr (), w)) of
        (Inl e, w1) \<Rightarrow> fail e w1
      | (Inr u, w1) \<Rightarrow>
          (case obtain_map_data env point (arg_distance a) w1 of
             (Inl e, w2) \<Rightarrow> fail e w2
           | (Inr layers, w2) \<Rightarrow>
               (case render_poster env output_path w2 of
                  (Inl e, w3) \<Rightarrow> fail e w3
                | (Inr u, w3) \<Rightarrow>
                    (case record_new_output env (arg_city a) (arg_country a) (arg_theme a)
                            (arg_distance a) (arg_size a) effective_dpi (arg_format a)
                            output_path w3 of
                       (Inl e, w4) \<Rightarrow> fail e w4
                     | (Inr u, w4) \<Rightarrow>
                         (let w5 = print Successfully_created w4 in
                          case relative_to output_path (cwd env) of
                            Inl e \<Rightarrow> fail e w5
                          | Inr rel \<Rightarrow> (0, print (Report_file (path_str rel)) w5))))))"

definition main :: "env \<Rightarrow> args \<Rightarrow> int \<Rightarrow> world \<Rightarrow> int \<times> world" where
  "main env a effective_dpi w =
     (case get_coordinates env w of
        (Inl e, w1) \<Rightarrow> fail e w1
      | (Inr point, w1) \<Rightarrow>
          (let output_path =
                 generate_output_filename env (arg_city a) (arg_theme a) (arg_format a) in
           case check_previous_output env (arg_city a) (arg_country a) (arg_theme a)
                  (arg_distance a) (arg_size a) effective_dpi (arg_format a) w1 of
             (Inl e, w2) \<Rightarrow> fail e w2
           | (Inr previous, w2) \<Rightarrow>
               if previous \<noteq> JNull then
                 (case py_getitem previous ''path'' of
                    Inl e \<Rightarrow> fail e w2
                  | Inr (JStr s) \<Rightarrow>
                      (let existing_path = path_div (root_dir env) s in
                       if path_exists w2 existing_path
                       then report_existing env previous existing_path w2
                       else generate env a effective_dpi point output_path w2)
                  | Inr v \<Rightarrow> fail TypeError w2)
               else generate env a effective_dpi point output_path w2))"

section \<open>Readings of the event list\<close>

text \<open>
  The work the output registry is there to save: a fetch of a map layer, a call of the
  renderer, an attempt to write a file. The geocoding is not part of it.
\<close>

fun is_fetch :: "event \<Rightarrow> bool" where
  "is_fetch (Retry Geocoder ev) = False"
| "is_fetch (Retry src ev) = True"
| "is_fetch e = False"

fun is_render :: "event \<Rightarrow> bool" where
  "is_render (Render p) = True"
| "is_render e = False"

fun is_write :: "event \<Rightarrow> bool" where
  "is_write (Write p c f) = True"
| "is_write e = False"

fun is_lookup :: "event \<Rightarrow> bool" where
  "is_lookup (Lookup k) = True"
| "is_lookup e = False"

definition is_work :: "event \<Rightarrow> bool" where
  "is_work e = (is_fetch e \<or> is_render e \<or> is_write e)"

text \<open>The events a step added: those of the later world after those of the earlier.\<close>

definition new_events :: "world \<Rightarrow> world \<Rightarrow> event list" where
  "new_events w w' = drop (length (events w)) (events w')"

section \<open>Example inputs\<close>

definition paris_lat :: pyfloat where
  "paris_lat = Finite False (488566 / 10000)"

definition paris_lon :: pyfloat where
  "paris_lon = Finite False (23522 / 10000)"

definition example_env :: env where
  "example_env =
     \<lparr>root_dir = [''home'', ''user'', ''terraposter''],
      cwd = [''home'', ''user'', ''terraposter''],
      now_iso = ''2026-01-22T10:00:00.000000'',
      now_stamp = ''20260122_100000'',
      write_fate = (\<lambda>i. Written),
      geocode = (\<lambda>i. Inr (Some (paris_lat, paris_lon))),
      graph_from_point = (\<lambda>i. Inr (PyOpaque 1)),
      water_features = (\<lambda>i. Inr (PyOpaque 2)),
      parks_features = (\<lambda>i. Inr PyNone),
      render_outcome = Inr ()\<rparr>"

text \<open>The same project, with the process started in another directory.\<close>

definition elsewhere_env :: env where
  "elsewhere_env = example_env\<lparr>cwd := [''tmp'']\<rparr>"

definition example_args :: args where
  "example_args =
     \<lparr>arg_city = ''Rome'', arg_country = ''Italy'', arg_theme = ''noir'',
      arg_distance = 6000, arg_size = ''default'', arg_format = ''png'',
      arg_no_cache = False\<rparr>"

definition empty_world :: world where
  "empty_world = \<lparr>fs = Map.empty, events = [], n_writes = 0\<rparr>"


text \<open>A world whose output registry is not valid JSON.\<close>

definition damaged_index_world :: world where
  "damaged_index_world =
     \<lparr>fs = [INDEX_FILE example_env \<mapsto> OtherBytes], events = [], n_writes = 0\<rparr>"

text \<open>
  A world in which the example poster was generated before: the registry has its record
  and the poster file is there.
\<close>

definition example_record :: json where
  "example_record =
     output_record ''posters/rome_noir_20260122_100000.png'' ''2026-01-22T10:00:00.000000''
       ''Rome'' ''Italy'' ''noir'' 6000 ''default'' 300 ''png''"

definition generated_world :: world where
  "generated_world =
     \<lparr>fs = [INDEX_FILE example_env \<mapsto>
              JsonText (JDict [(make_output_key ''Rome'' ''Italy'' ''noir'' 6000 ''default''
                                 300 ''png'', example_record)]),
            [''home'', ''user'', ''terraposter'', ''posters'',
             ''rome_noir_20260122_100000.png''] \<mapsto> OtherBytes],
      events = [], n_writes = 0\<rparr>"

section \<open>Properties of retry\_call\<close>











section \<open>Properties of the key derivation\<close>

text \<open>The test vector of the standard, as \<^verbatim>\<open>hashlib\<close> gives it as well.\<close>

lemma sha256_test_vector:
  "sha256_hexdigest ''abc''
     = ''ba7816bf8f01cfea414140de5dae2223b00361a396177a9cb410ff61f20015ad''"
  by code_simp











section \<open>Properties of the output registry and the map-data cache\<close>

lemma emit_simps:
  "fs (emit evs w) = fs w" "events (emit evs w) = events w @ evs"
  "n_writes (emit evs w) = n_writes w"
  by (simp_all add: emit_def)

lemma print_simps:
  "fs (print m w) = fs w" "events (print m w) = events w @ [Print m]"
  "n_writes (print m w) = n_writes w"
  by (simp_all add: print_def emit_simps)

lemma path_exists_emit: "path_exists (emit evs w) p = path_exists w p"
  by (simp add: path_exists_def emit_simps)

lemma path_exists_print: "path_exists (print m w) p = path_exists w p"
  by (simp add: path_exists_def print_simps)

lemma load_output_index_frame:
  "fs (snd (load_output_index env w)) = fs w
   \<and> n_writes (snd (load_output_index env w)) = n_writes w"
  by (simp add: load_output_index_def print_simps split: sum.splits)

lemma check_previous_output_frame:
  "fs (snd (check_previous_output env city country theme distance psize dpi format w)) = fs w
   \<and> n_writes (snd (check_previous_output env city country theme distance psize dpi format w))
       = n_writes w"
  using load_output_index_frame [of env w]
  by (auto simp: check_previous_output_def Let_def emit_simps
      split: prod.splits sum.splits bool.splits)



lemma get_cached_data_absent:
  "fs w (cache_path env (make_cache_key lat lon d)) = None \<Longrightarrow>
   get_cached_data env lat lon d w = (Inr PyNone, w)"
  by (simp add: get_cached_data_def Let_def path_exists_def)


lemma get_cached_data_present:
  "fs w (cache_path env (make_cache_key lat lon d)) = Some (PickleBytes v) \<Longrightarrow>
   get_cached_data env lat lon d w
     = (Inr v, print (Using_cached_map_data (take 8 (make_cache_key lat lon d))) w)"
  by (simp add: get_cached_data_def Let_def path_exists_def pickle_load_def)



lemma write_file_written:
  "fs w p \<noteq> Some Directory \<Longrightarrow> write_fate env (n_writes w) = Written \<Longrightarrow>
   fst (write_file env p c w) = Inr () \<and> fs (snd (write_file env p c w)) = (fs w)(p \<mapsto> c)
   \<and> events (snd (write_file env p c w)) = events w @ [Write p c Written]
   \<and> n_writes (snd (write_file env p c w)) = Suc (n_writes w)"
  by (simp add: write_file_def Let_def emit_def)

lemma save_to_cache_written:
  assumes "fs w (cache_path env (make_cache_key lat lon d)) \<noteq> Some Directory"
    and "write_fate env (n_writes w) = Written"
  shows "fs (save_to_cache env lat lon d data w)
           = (fs w)(cache_path env (make_cache_key lat lon d) \<mapsto> PickleBytes data)"
  using write_file_written [OF assms, of "PickleBytes data"]
  by (auto simp: save_to_cache_def Let_def print_simps split: prod.splits sum.splits)

lemma clear_cache_removes:
  "clear_cache env lat lon d w = (Inr u, w') \<Longrightarrow>
   fs w' (cache_path env (make_cache_key lat lon d)) = None"
  by (auto simp: clear_cache_def Let_def path_exists_def print_simps emit_simps
      split: if_splits)

text \<open>
  Claim C4. When the write succeeds, \<open>save_to_cache\<close> followed by \<open>get_cached_data\<close>
  with the same arguments returns the stored entry; and after the block of \<open>main\<close> under
  \<^verbatim>\<open>--no-cache\<close> has run, \<open>get_cached_data\<close> with the same arguments returns \<open>None\<close>.
\<close>

theorem cache_round_trip:
  "(fs w (cache_path env (make_cache_key lat lon d)) \<noteq> Some Directory
      \<and> write_fate env (n_writes w) = Written \<longrightarrow>
    fst (get_cached_data env lat lon d (save_to_cache env lat lon d data w)) = Inr data)
   \<and> (\<forall>w'. clear_cache env lat lon d w = (Inr (), w') \<longrightarrow>
        fst (get_cached_data env lat lon d w') = Inr PyNone)"
proof (intro conjI impI allI)
  assume a: "fs w (cache_path env (make_cache_key lat lon d)) \<noteq> Some Directory
      \<and> write_fate env (n_writes w) = Written"
  then have "fs (save_to_cache env lat lon d data w) (cache_path env (make_cache_key lat lon d))
      = Some (PickleBytes data)"
    by (simp add: save_to_cache_written)
  then show "fst (get_cached_data env lat lon d (save_to_cache env lat lon d data w)) = Inr data"
    by (simp add: get_cached_data_present)
next
  fix w' assume "clear_cache env lat lon d w = (Inr (), w')"
  then have "fs w' (cache_path env (make_cache_key lat lon d)) = None"
    by (rule clear_cache_removes)
  then show "fst (get_cached_data env lat lon d w') = Inr PyNone"
    by (simp add: get_cached_data_absent)
qed


lemma load_output_index_json:
  "fs w (INDEX_FILE env) = Some (JsonText j) \<Longrightarrow> load_output_index env w = (j, w)"
  by (simp add: load_output_index_def path_exists_def json_load_def)

lemma load_output_index_missing:
  "fs w (INDEX_FILE env) = None \<Longrightarrow> load_output_index env w = (JDict [], w)"
  by (simp add: load_output_index_def path_exists_def)

lemma load_output_index_corrupt:
  "fs w (INDEX_FILE env) = Some c \<Longrightarrow> \<forall>j. c \<noteq> JsonText j \<Longrightarrow>
   load_output_index env w = (JDict [], print Index_corrupted w)"
  by (cases c) (simp_all add: load_output_index_def path_exists_def json_load_def)

lemma save_output_index_written:
  assumes "fs w (INDEX_FILE env) \<noteq> Some Directory"
    and "write_fate env (n_writes w) = Written"
  shows "fs (save_output_index env index w) = (fs w)(INDEX_FILE env \<mapsto> JsonText index)"
  using write_file_written [OF assms, of "JsonText index"]
  by (auto simp: save_output_index_def split: prod.splits sum.splits)

lemma record_new_output_written:
  assumes "load_output_index env w = (JDict al, w1)"
    and "relative_to output_path (root_dir env) = Inr rel"
    and "fs w (INDEX_FILE env) \<noteq> Some Directory"
    and "write_fate env (n_writes w) = Written"
  shows "fst (record_new_output env city country theme distance psize dpi format output_path w)
           = Inr ()
       \<and> fs (snd (record_new_output env city country theme distance psize dpi format
                  output_path w))
           = (fs w)(INDEX_FILE env \<mapsto> JsonText (JDict (AList.update
               (make_output_key city country theme distance psize dpi format)
               (output_record (path_str rel) (now_iso env) city country theme distance psize
                  dpi format) al)))"
proof -
  have f: "fs w1 = fs w" "n_writes w1 = n_writes w"
    using load_output_index_frame [of env w] assms(1) by simp_all
  have "fs (save_output_index env j w1) = (fs w)(INDEX_FILE env \<mapsto> JsonText j)" for j
    using save_output_index_written [of w1 env j] assms(3,4) f by simp
  then show ?thesis
    using assms(1,2) by (simp add: record_new_output_def py_setitem_def)
qed

lemma record_new_output_ok_cases:
  assumes "fst (record_new_output env city country theme distance psize dpi format
                  output_path w) = Inr ()"
  shows "\<exists>al w1 rel. load_output_index env w = (JDict al, w1)
           \<and> relative_to output_path (root_dir env) = Inr rel"
proof -
  obtain index w1 where l: "load_output_index env w = (index, w1)"
    by (cases "load_output_index env w") auto
  show ?thesis
    using assms l
    by (cases "relative_to output_path (root_dir env)"; cases index)
       (simp_all add: record_new_output_def py_setitem_def)
qed

lemma check_previous_output_found:
  assumes "fs w (INDEX_FILE env) = Some (JsonText (JDict al))"
    and "map_of al (make_output_key city country theme distance psize dpi format) = Some v"
  shows "fst (check_previous_output env city country theme distance psize dpi format w) = Inr v"
  using assms
  by (simp add: check_previous_output_def load_output_index_json py_contains_def
      py_getitem_def)

lemma check_previous_output_empty:
  assumes "fst (load_output_index env w) = JDict []"
  shows "fst (check_previous_output env city country theme distance psize dpi format w)
           = Inr JNull"
  using assms
  by (cases "load_output_index env w")
     (simp add: check_previous_output_def py_contains_def)

text \<open>
  Claim C3. When \<open>record_new_output\<close> returns and the write of the registry file
  succeeded, \<open>check_previous_output\<close> with the same parameters right after it returns the
  record just made, whose \<open>path\<close> is the output path relative to the project root.
\<close>

theorem record_then_lookup:
  assumes "fst (record_new_output env city country theme distance psize dpi format
                  output_path w) = Inr ()"
    and "fs w (INDEX_FILE env) \<noteq> Some Directory"
    and "write_fate env (n_writes w) = Written"
  shows "\<exists>rel. relative_to output_path (root_dir env) = Inr rel
       \<and> fst (check_previous_output env city country theme distance psize dpi format
               (snd (record_new_output env city country theme distance psize dpi format
                       output_path w)))
           = Inr (output_record (path_str rel) (now_iso env) city country theme distance psize
                    dpi format)
       \<and> py_getitem (output_record (path_str rel) (now_iso env) city country theme distance
                        psize dpi format) ''path''
           = Inr (JStr (path_str rel))"
proof -
  obtain al w1 rel where l: "load_output_index env w = (JDict al, w1)"
    and r: "relative_to output_path (root_dir env) = Inr rel"
    using record_new_output_ok_cases [OF assms(1)] by blast
  let ?key = "make_output_key city country theme distance psize dpi format"
  let ?rec = "output_record (path_str rel) (now_iso env) city country theme distance psize
                dpi format"
  let ?w' = "snd (record_new_output env city country theme distance psize dpi format
                    output_path w)"
  have "fs ?w' (INDEX_FILE env) = Some (JsonText (JDict (AList.update ?key ?rec al)))"
    using record_new_output_written [OF l r assms(2,3)] by simp
  moreover have "map_of (AList.update ?key ?rec al) ?key = Some ?rec"
    by (simp add: update_conv')
  ultimately have "fst (check_previous_output env city country theme distance psize dpi format
      ?w') = Inr ?rec"
    by (rule check_previous_output_found)
  moreover have "py_getitem ?rec ''path'' = Inr (JStr (path_str rel))"
    by (simp add: py_getitem_def output_record_def)
  ultimately show ?thesis using r by blast
qed

text \<open>
  Claim C6. With the registry file missing or not valid JSON, the loaded index is the
  empty mapping (after a warning when the file is there, and never an error), the lookup
  returns \<open>None\<close>, and a \<open>record_new_output\<close> whose write succeeds persists its entry,
  which the next lookup returns.
\<close>

theorem registry_missing_or_corrupt:
  assumes "\<forall>j. fs w (INDEX_FILE env) \<noteq> Some (JsonText j)"
  shows "fst (load_output_index env w) = JDict []
       \<and> events (snd (load_output_index env w))
           = (if fs w (INDEX_FILE env) = None then events w
              else events w @ [Print Index_corrupted])
       \<and> fst (check_previous_output env city country theme distance psize dpi format w)
           = Inr JNull
       \<and> (\<forall>rel. relative_to output_path (root_dir env) = Inr rel
             \<and> fs w (INDEX_FILE env) \<noteq> Some Directory
             \<and> write_fate env (n_writes w) = Written \<longrightarrow>
           fst (record_new_output env city country theme distance psize dpi format
                  output_path w) = Inr ()
           \<and> fs (snd (record_new_output env city country theme distance psize dpi format
                  output_path w)) (INDEX_FILE env)
               = Some (JsonText (JDict
                   [(make_output_key city country theme distance psize dpi format,
                     output_record (path_str rel) (now_iso env) city country theme distance
                       psize dpi format)]))
           \<and> fst (check_previous_output env city country theme distance psize dpi format
                   (snd (record_new_output env city country theme distance psize dpi format
                           output_path w)))
               = Inr (output_record (path_str rel) (now_iso env) city country theme distance
                        psize dpi format))"
proof -
  have l: "load_output_index env w
             = (JDict [], if fs w (INDEX_FILE env) = None then w else print Index_corrupted w)"
  proof (cases "fs w (INDEX_FILE env)")
    case None
    then show ?thesis by (simp add: load_output_index_missing)
  next
    case (Some c)
    then have "\<forall>j. c \<noteq> JsonText j" using assms by simp
    with Some show ?thesis by (simp add: load_output_index_corrupt)
  qed
  have a: "fst (load_output_index env w) = JDict []" using l by simp
  have b: "events (snd (load_output_index env w))
           = (if fs w (INDEX_FILE env) = None then events w
              else events w @ [Print Index_corrupted])"
    using l by (simp add: print_simps)
  have c: "fst (check_previous_output env city country theme distance psize dpi format w)
           = Inr JNull"
    using a by (rule check_previous_output_empty)
  have d: "fst (record_new_output env city country theme distance psize dpi format
                  output_path w) = Inr ()
           \<and> fs (snd (record_new_output env city country theme distance psize dpi format
                  output_path w)) (INDEX_FILE env)
               = Some (JsonText (JDict
                   [(make_output_key city country theme distance psize dpi format,
                     output_record (path_str rel) (now_iso env) city country theme distance
                       psize dpi format)]))
           \<and> fst (check_previous_output env city country theme distance psize dpi format
                   (snd (record_new_output env city country theme distance psize dpi format
                           output_path w)))
               = Inr (output_record (path_str rel) (now_iso env) city country theme distance
                        psize dpi format)"
    if r: "relative_to output_path (root_dir env) = Inr rel"
      and nd: "fs w (INDEX_FILE env) \<noteq> Some Directory"
      and wf: "write_fate env (n_writes w) = Written" for rel
  proof -
    let ?key = "make_output_key city country theme distance psize dpi format"
    let ?rec = "output_record (path_str rel) (now_iso env) city country theme distance psize
                  dpi format"
    let ?w' = "snd (record_new_output env city country theme distance psize dpi format
                      output_path w)"
    have w: "fst (record_new_output env city country theme distance psize dpi format
                  output_path w) = Inr ()
           \<and> fs ?w' = (fs w)(INDEX_FILE env \<mapsto> JsonText (JDict (AList.update ?key ?rec [])))"
      using record_new_output_written [OF l r nd wf] by simp
    then have f: "fs ?w' (INDEX_FILE env) = Some (JsonText (JDict [(?key, ?rec)]))" by simp
    have "map_of [(?key, ?rec)] ?key = Some ?rec" by simp
    with f have "fst (check_previous_output env city country theme distance psize dpi format
        ?w') = Inr ?rec"
      by (rule check_previous_output_found)
    with w f show ?thesis by simp
  qed
  show ?thesis using a b c d by blast
qed



theorem cache_round_trip_witness:
  "fst (get_cached_data example_env paris_lat paris_lon 5000
          (save_to_cache example_env paris_lat paris_lon 5000
             (PyTuple [PyOpaque 1, PyOpaque 2, PyNone]) empty_world))
     = Inr (PyTuple [PyOpaque 1, PyOpaque 2, PyNone])
   \<and> fst (get_cached_data example_env paris_lat paris_lon 5000
            (snd (clear_cache example_env paris_lat paris_lon 5000
               (save_to_cache example_env paris_lat paris_lon 5000
                  (PyTuple [PyOpaque 1, PyOpaque 2, PyNone]) empty_world))))
     = Inr PyNone"
proof -
  let ?data = "PyTuple [PyOpaque 1, PyOpaque 2, PyNone]"
  let ?w = "save_to_cache example_env paris_lat paris_lon 5000 ?data empty_world"
  have a: "fs empty_world (cache_path example_env (make_cache_key paris_lat paris_lon 5000))
             \<noteq> Some Directory \<and> write_fate example_env (n_writes empty_world) = Written"
    by (simp add: empty_world_def example_env_def)
  have f: "fs ?w (cache_path example_env (make_cache_key paris_lat paris_lon 5000))
             = Some (PickleBytes ?data)"
    using a by (simp add: save_to_cache_written)
  have c: "clear_cache example_env paris_lat paris_lon 5000 ?w
             = (Inr (), snd (clear_cache example_env paris_lat paris_lon 5000 ?w))"
    using f by (simp add: clear_cache_def path_exists_def Let_def)
  show ?thesis
    using cache_round_trip [of empty_world example_env paris_lat paris_lon 5000 ?data] a
      cache_round_trip [of ?w example_env paris_lat paris_lon 5000] c
    by blast
qed

theorem record_then_lookup_witness:
  "fst (check_previous_output example_env ''Rome'' ''Italy'' ''noir'' 6000 ''default'' 300
          ''png''
          (snd (record_new_output example_env ''Rome'' ''Italy'' ''noir'' 6000 ''default'' 300
                  ''png''
                  [''home'', ''user'', ''terraposter'', ''posters'',
                   ''rome_noir_20260122_100000.png''] empty_world)))
     = Inr example_record"
proof -
  let ?p = "[''home'', ''user'', ''terraposter'', ''posters'', ''rome_noir_20260122_100000.png'']"
  have r: "relative_to ?p (root_dir example_env)
             = Inr [''posters'', ''rome_noir_20260122_100000.png'']"
    by (simp add: relative_to_def example_env_def)
  have l: "load_output_index example_env empty_world = (JDict [], empty_world)"
    by (simp add: load_output_index_missing empty_world_def)
  have nd: "fs empty_world (INDEX_FILE example_env) \<noteq> Some Directory"
    by (simp add: empty_world_def)
  have wf: "write_fate example_env (n_writes empty_world) = Written"
    by (simp add: example_env_def)
  have ok: "fst (record_new_output example_env ''Rome'' ''Italy'' ''noir'' 6000 ''default'' 300
                  ''png'' ?p empty_world) = Inr ()"
    using record_new_output_written [OF l r nd wf] by simp
  have s: "path_str [''posters'', ''rome_noir_20260122_100000.png'']
             = ''posters/rome_noir_20260122_100000.png''"
    by (simp add: path_str_def)
  show ?thesis
    using record_then_lookup [OF ok nd wf] r s
    by (simp add: example_record_def example_env_def)
qed

theorem registry_missing_or_corrupt_witness:
  "fst (load_output_index example_env damaged_index_world) = JDict []
   \<and> events (snd (load_output_index example_env damaged_index_world))
       = [Print Index_corrupted]
   \<and> fst (check_previous_output example_env ''Rome'' ''Italy'' ''noir'' 6000 ''default'' 300
            ''png'' damaged_index_world) = Inr JNull
   \<and> fst (check_previous_output example_env ''Rome'' ''Italy'' ''noir'' 6000 ''default'' 300
            ''png''
            (snd (record_new_output example_env ''Rome'' ''Italy'' ''noir'' 6000 ''default''
                    300 ''png''
                    [''home'', ''user'', ''terraposter'', ''posters'',
                     ''rome_noir_20260122_100000.png''] damaged_index_world)))
       = Inr example_record"
proof -
  let ?p = "[''home'', ''user'', ''terraposter'', ''posters'', ''rome_noir_20260122_100000.png'']"
  have h: "\<forall>j. fs damaged_index_world (INDEX_FILE example_env) \<noteq> Some (JsonText j)"
    by (simp add: damaged_index_world_def)
  have r: "relative_to ?p (root_dir example_env)
             = Inr [''posters'', ''rome_noir_20260122_100000.png'']"
    by (simp add: relative_to_def example_env_def)
  have nd: "fs damaged_index_world (INDEX_FILE example_env) \<noteq> Some Directory"
    by (simp add: damaged_index_world_def)
  have nn: "fs damaged_index_world (INDEX_FILE example_env) \<noteq> None"
    by (simp add: damaged_index_world_def)
  have wf: "write_fate example_env (n_writes damaged_index_world) = Written"
    by (simp add: example_env_def)
  have s: "path_str [''posters'', ''rome_noir_20260122_100000.png'']
             = ''posters/rome_noir_20260122_100000.png''"
    by (simp add: path_str_def)
  have e: "events damaged_index_world = []"
    by (simp add: damaged_index_world_def)
  show ?thesis
    using registry_missing_or_corrupt [OF h, of "''Rome''" "''Italy''" "''noir''" 6000
        "''default''" 300 "''png''" ?p] r nd nn wf s e
    by (simp add: example_record_def example_env_def)
qed

section \<open>Properties of fetch\_map\_data\<close>


lemma filter_geocoder_work: "filter is_work (map (Retry Geocoder) evs) = []"
  by (induction evs) (simp_all add: is_work_def)

lemma writes_print: "filter is_write (events (print m w)) = filter is_write (events w)"
  by (simp add: print_simps)

lemma fetches_print: "filter is_fetch (events (print m w)) = filter is_fetch (events w)"
  by (simp add: print_simps)

lemma work_print: "filter is_work (events (print m w)) = filter is_work (events w)"
  by (simp add: print_simps is_work_def)

lemma retried_eq:
  "retried src func m b w
     = (fst (retry_call func m b 2 (\<lambda>e. True)),
        emit (map (Retry src) (snd (retry_call func m b 2 (\<lambda>e. True)))) w)"
  by (simp add: retried_def split: prod.splits)







lemma fetch_map_data_miss:
  assumes "fst (get_cached_data env (fst point) (snd point) d w) = Inr PyNone"
  shows "fetch_map_data env point d True w
           = fetching_block env point d True
               (snd (get_cached_data env (fst point) (snd point) d w))"
  using assms
  by (cases "get_cached_data env (fst point) (snd point) d w")
     (simp add: fetch_map_data_def)




section \<open>Properties of the generation flow\<close>

lemma filter_work_append:
  "filter is_work (xs @ ys) = filter is_work xs @ filter is_work ys"
  by simp

lemma retried_geocoder_frame:
  "fs (snd (retried Geocoder func m b w)) = fs w
   \<and> filter is_work (events (snd (retried Geocoder func m b w))) = filter is_work (events w)
   \<and> n_writes (snd (retried Geocoder func m b w)) = n_writes w"
  by (simp add: retried_eq emit_simps filter_geocoder_work)

lemma get_coordinates_frame:
  "fs (snd (get_coordinates env w)) = fs w
   \<and> filter is_work (events (snd (get_coordinates env w))) = filter is_work (events w)
   \<and> n_writes (snd (get_coordinates env w)) = n_writes w"
  using retried_geocoder_frame [of "geocode env" 4 "3 / 2" w]
  by (auto simp: get_coordinates_def split: prod.splits sum.splits option.splits)

lemma load_output_index_work:
  "filter is_work (events (snd (load_output_index env w))) = filter is_work (events w)"
  by (simp add: load_output_index_def print_simps is_work_def split: sum.splits)

lemma check_previous_output_work:
  "filter is_work (events (snd (check_previous_output env city country theme distance psize
      dpi format w))) = filter is_work (events w)"
  using load_output_index_work [of env w]
  by (auto simp: check_previous_output_def Let_def emit_simps is_work_def
      split: prod.splits sum.splits bool.splits)

lemma fail_frame:
  "fs (snd (fail e w)) = fs w
   \<and> filter is_work (events (snd (fail e w))) = filter is_work (events w)
   \<and> n_writes (snd (fail e w)) = n_writes w"
  by (simp add: fail_def print_simps is_work_def)

lemma report_existing_frame:
  "fs (snd (report_existing env previous existing_path w)) = fs w
   \<and> filter is_work (events (snd (report_existing env previous existing_path w)))
       = filter is_work (events w)
   \<and> n_writes (snd (report_existing env previous existing_path w)) = n_writes w"
  by (simp add: report_existing_def Let_def fail_def print_simps is_work_def
      split: sum.splits)

lemma report_existing_ok:
  assumes "relative_to existing_path (cwd env) = Inr rel"
    and "py_getitem previous ''generated_at'' = Inr g"
  shows "report_existing env previous existing_path w
           = (0, print (Report_generated g)
                   (print (Report_file (path_str rel)) (print Already_generated w)))"
  using assms by (simp add: report_existing_def Let_def)

text \<open>The run up to the branch on the registry.\<close>

lemma main_hit:
  assumes "get_coordinates env w = (Inr point, w1)"
    and "check_previous_output env (arg_city a) (arg_country a) (arg_theme a) (arg_distance a)
           (arg_size a) dpi (arg_format a) w1 = (Inr previous, w2)"
    and "py_getitem previous ''path'' = Inr (JStr s)"
    and "path_exists w2 (path_div (root_dir env) s)"
  shows "main env a dpi w = report_existing env previous (path_div (root_dir env) s) w2"
proof -
  have "previous \<noteq> JNull" using assms(3) by (auto simp: py_getitem_def)
  then show ?thesis using assms by (simp add: main_def Let_def)
qed

lemma main_file_missing:
  assumes "get_coordinates env w = (Inr point, w1)"
    and "check_previous_output env (arg_city a) (arg_country a) (arg_theme a) (arg_distance a)
           (arg_size a) dpi (arg_format a) w1 = (Inr previous, w2)"
    and "py_getitem previous ''path'' = Inr (JStr s)"
    and "\<not> path_exists w2 (path_div (root_dir env) s)"
  shows "main env a dpi w
           = generate env a dpi point
               (generate_output_filename env (arg_city a) (arg_theme a) (arg_format a)) w2"
proof -
  have "previous \<noteq> JNull" using assms(3) by (auto simp: py_getitem_def)
  then show ?thesis using assms by (simp add: main_def Let_def)
qed

lemma main_absent:
  assumes "get_coordinates env w = (Inr point, w1)"
    and "check_previous_output env (arg_city a) (arg_country a) (arg_theme a) (arg_distance a)
           (arg_size a) dpi (arg_format a) w1 = (Inr JNull, w2)"
  shows "main env a dpi w
           = generate env a dpi point
               (generate_output_filename env (arg_city a) (arg_theme a) (arg_format a)) w2"
  using assms by (simp add: main_def Let_def)

text \<open>Every operation only appends to the event list.\<close>

lemma emit_extends: "prefix (events w) (events (emit evs w))"
  by (simp add: emit_simps)

lemma print_extends: "prefix (events w) (events (print m w))"
  by (simp add: print_simps)

lemma extends_print: "prefix xs (events w) \<Longrightarrow> prefix xs (events (print m w))"
  by (simp add: print_simps)

lemma extends_emit: "prefix xs (events w) \<Longrightarrow> prefix xs (events (emit evs w))"
  by (simp add: emit_simps)

lemma write_file_extends: "prefix (events w) (events (snd (write_file env p c w)))"
  by (simp add: write_file_def Let_def emit_def split: write_outcome.splits)

lemma load_output_index_extends: "prefix (events w) (events (snd (load_output_index env w)))"
  by (simp add: load_output_index_def print_simps split: sum.splits)

lemma save_output_index_extends: "prefix (events w) (events (save_output_index env j w))"
  using write_file_extends [of w env "INDEX_FILE env" "JsonText j"]
  by (auto simp: save_output_index_def intro: extends_print split: prod.splits sum.splits)

lemma record_new_output_extends:
  "prefix (events w)
     (events (snd (record_new_output env city country theme distance psize dpi format
        output_path w)))"
proof -
  obtain index w1 where l: "load_output_index env w = (index, w1)"
    by (cases "load_output_index env w") auto
  have p1: "prefix (events w) (events w1)"
    using load_output_index_extends [of w env] l by simp
  have "prefix (events w) (events (save_output_index env j w1))" for j
    using p1 save_output_index_extends [of w1 env j] by (rule prefix_order.trans)
  then show ?thesis
    using l p1 by (simp add: record_new_output_def split: sum.splits)
qed

lemma get_cached_data_extends:
  "prefix (events w) (events (snd (get_cached_data env lat lon d w)))"
  by (simp add: get_cached_data_def Let_def print_simps split: sum.splits)

lemma save_to_cache_extends: "prefix (events w) (events (save_to_cache env lat lon d data w))"
  using write_file_extends
    [of w env "cache_path env (make_cache_key lat lon d)" "PickleBytes data"]
  by (auto simp: save_to_cache_def Let_def intro: extends_print split: prod.splits sum.splits)

lemma retried_extends: "prefix (events w) (events (snd (retried src func m b w)))"
  by (simp add: retried_eq emit_simps)

lemma fetching_block_extends:
  "prefix (events w) (events (snd (fetching_block env point d uc w)))"
proof -
  have s: "prefix xs (events ww) \<Longrightarrow>
           prefix xs (events (save_to_cache env lat lon dd data ww))" for xs ww lat lon dd data
    using save_to_cache_extends prefix_order.trans by blast
  show ?thesis
    by (auto simp: fetching_block_def retried_eq Let_def emit_simps print_simps
        intro!: s split: prod.splits sum.splits)
qed

lemma fetch_map_data_extends:
  "prefix (events w) (events (snd (fetch_map_data env point d uc w)))"
proof -
  obtain r w1 where g: "get_cached_data env (fst point) (snd point) d w = (r, w1)"
    by (cases "get_cached_data env (fst point) (snd point) d w") auto
  have p1: "prefix (events w) (events w1)"
    using get_cached_data_extends [of w env "fst point" "snd point" d] g by simp
  have p2: "prefix (events w) (events (snd (fetching_block env point d uc w1)))"
    using p1 fetching_block_extends by (rule prefix_order.trans)
  show ?thesis
    using g p1 p2 fetching_block_extends [of w env point d uc]
    by (auto simp: fetch_map_data_def intro: extends_print split: sum.splits)
qed

lemma clear_cache_extends: "prefix (events w) (events (snd (clear_cache env lat lon d w)))"
  by (simp add: clear_cache_def Let_def print_simps emit_simps)

lemma obtain_map_data_extends:
  "prefix (events w) (events (snd (obtain_map_data env point d w)))"
proof -
  obtain r w1 where g: "get_cached_data env (fst point) (snd point) d w = (r, w1)"
    by (cases "get_cached_data env (fst point) (snd point) d w") auto
  have p1: "prefix (events w) (events w1)"
    using get_cached_data_extends [of w env "fst point" "snd point" d] g by simp
  obtain r2 w2 where f: "fetch_map_data env point d True w1 = (r2, w2)"
    by (cases "fetch_map_data env point d True w1") auto
  have p2: "prefix (events w) (events w2)"
    using p1 fetch_map_data_extends [of w1 env point d True] f
    by (auto intro: prefix_order.trans)
  have p3: "prefix (events w) (events (save_to_cache env lat lon dd data w2))"
    for lat lon dd data
    using p2 save_to_cache_extends by (rule prefix_order.trans)
  show ?thesis
    using g f p1 p2 p3
    by (auto simp: obtain_map_data_def intro: extends_print split: sum.splits)
qed

lemma render_poster_extends: "prefix (events w) (events (snd (render_poster env p w)))"
  by (simp add: render_poster_def Let_def emit_simps split: sum.splits)

lemma fail_extends: "prefix xs (events w) \<Longrightarrow> prefix xs (events (snd (fail e w)))"
  by (simp add: fail_def print_simps)

lemma report_existing_extends:
  "prefix (events w) (events (snd (report_existing env previous p w)))"
  by (simp add: report_existing_def Let_def fail_def print_simps split: sum.splits)

lemma generate_extends:
  "prefix (events w) (events (snd (generate env a dpi point output_path w)))"
proof -
  let ?c = "if arg_no_cache a
            then clear_cache env (fst point) (snd point) (arg_distance a) w else (Inr (), w)"
  obtain r1 w1 where c: "?c = (r1, w1)" by (cases ?c) auto
  have p1: "prefix (events w) (events w1)"
    using c clear_cache_extends [of w env "fst point" "snd point" "arg_distance a"]
    by (auto split: if_splits)
  obtain r2 w2 where o: "obtain_map_data env point (arg_distance a) w1 = (r2, w2)"
    by (cases "obtain_map_data env point (arg_distance a) w1") auto
  have p2: "prefix (events w) (events w2)"
    using p1 obtain_map_data_extends [of w1 env point "arg_distance a"] o
    by (auto intro: prefix_order.trans)
  obtain r3 w3 where r: "render_poster env output_path w2 = (r3, w3)"
    by (cases "render_poster env output_path w2") auto
  have p3: "prefix (events w) (events w3)"
    using p2 render_poster_extends [of w2 env output_path] r
    by (auto intro: prefix_order.trans)
  obtain r4 w4 where n: "record_new_output env (arg_city a) (arg_country a) (arg_theme a)
      (arg_distance a) (arg_size a) dpi (arg_format a) output_path w3 = (r4, w4)"
    by (cases "record_new_output env (arg_city a) (arg_country a) (arg_theme a)
      (arg_distance a) (arg_size a) dpi (arg_format a) output_path w3") auto
  have p4: "prefix (events w) (events w4)"
    using p3 record_new_output_extends [of w3 env "arg_city a" "arg_country a" "arg_theme a"
        "arg_distance a" "arg_size a" dpi "arg_format a" output_path] n
    by (auto intro: prefix_order.trans)
  have g: "generate env a dpi point output_path w =
     (case r1 of Inl e \<Rightarrow> fail e w1
      | Inr u \<Rightarrow>
          (case r2 of Inl e \<Rightarrow> fail e w2
           | Inr layers \<Rightarrow>
               (case r3 of Inl e \<Rightarrow> fail e w3
                | Inr u \<Rightarrow>
                    (case r4 of Inl e \<Rightarrow> fail e w4
                     | Inr u \<Rightarrow>
                         (let w5 = print Successfully_created w4 in
                          case relative_to output_path (cwd env) of
                            Inl e \<Rightarrow> fail e w5
                          | Inr rel \<Rightarrow> (0, print (Report_file (path_str rel)) w5))))))"
    unfolding generate_def c using o r n by (simp split: sum.splits)
  show ?thesis
    unfolding g using p1 p2 p3 p4
    by (auto simp: Let_def intro: fail_extends extends_print split: sum.splits)
qed

text \<open>
  On a hit whose file exists the run is \<open>report_existing\<close>: no file changes, no write is
  attempted, and no fetch, render or write event is added.
\<close>

lemma main_short_circuit:
  assumes "get_coordinates env w = (Inr point, w1)"
    and "check_previous_output env (arg_city a) (arg_country a) (arg_theme a) (arg_distance a)
           (arg_size a) dpi (arg_format a) w1 = (Inr previous, w2)"
    and "py_getitem previous ''path'' = Inr (JStr s)"
    and "path_exists w2 (path_div (root_dir env) s)"
  shows "fs (snd (main env a dpi w)) = fs w
       \<and> n_writes (snd (main env a dpi w)) = n_writes w
       \<and> filter is_work (events (snd (main env a dpi w))) = filter is_work (events w)"
proof -
  have m: "main env a dpi w = report_existing env previous (path_div (root_dir env) s) w2"
    using assms by (rule main_hit)
  have 1: "fs w1 = fs w \<and> n_writes w1 = n_writes w
           \<and> filter is_work (events w1) = filter is_work (events w)"
    using get_coordinates_frame [of env w] assms(1) by simp
  have 2: "fs w2 = fs w1 \<and> n_writes w2 = n_writes w1
           \<and> filter is_work (events w2) = filter is_work (events w1)"
    using check_previous_output_frame [of env "arg_city a" "arg_country a" "arg_theme a"
        "arg_distance a" "arg_size a" dpi "arg_format a" w1]
      check_previous_output_work [of env "arg_city a" "arg_country a" "arg_theme a"
        "arg_distance a" "arg_size a" dpi "arg_format a" w1] assms(2)
    by simp
  show ?thesis
    unfolding m
    using report_existing_frame [of env previous "path_div (root_dir env) s" w2] 1 2
    by simp
qed

text \<open>
  With the working directory above the file and a record that has its time stamp, the
  report is printed and the exit status is 0.
\<close>

lemma main_short_circuit_reports:
  assumes "get_coordinates env w = (Inr point, w1)"
    and "check_previous_output env (arg_city a) (arg_country a) (arg_theme a) (arg_distance a)
           (arg_size a) dpi (arg_format a) w1 = (Inr previous, w2)"
    and "py_getitem previous ''path'' = Inr (JStr s)"
    and "path_exists w2 (path_div (root_dir env) s)"
    and "relative_to (path_div (root_dir env) s) (cwd env) = Inr rel"
    and "py_getitem previous ''generated_at'' = Inr g"
  shows "main env a dpi w
           = (0, print (Report_generated g)
                   (print (Report_file (path_str rel)) (print Already_generated w2)))"
  using main_hit [OF assms(1-4)] report_existing_ok [OF assms(5,6)] by simp

text \<open>
  The lookup comes before any work: what a run adds to the event list is a part without
  fetch, render or write, followed by nothing or by a part that starts with the lookup.
\<close>

lemma get_coordinates_events:
  "\<exists>evs. events (snd (get_coordinates env w)) = events w @ map (Retry Geocoder) evs"
  by (auto simp: get_coordinates_def retried_eq emit_simps split: sum.splits option.splits)

lemma check_previous_output_events:
  "\<exists>ms key. events (snd (check_previous_output env city country theme distance psize dpi
      format w)) = events w @ ms @ [Lookup key] \<and> filter is_work ms = []"
proof -
  have "\<exists>ms. events (snd (load_output_index env w)) = events w @ ms \<and> filter is_work ms = []"
    by (auto simp: load_output_index_def print_simps is_work_def split: sum.splits)
  then obtain ms where ms: "events (snd (load_output_index env w)) = events w @ ms"
    "filter is_work ms = []" by blast
  have "events (snd (check_previous_output env city country theme distance psize dpi
      format w)) = events w @ ms
        @ [Lookup (make_output_key city country theme distance psize dpi format)]"
    using ms(1)
    by (auto simp: check_previous_output_def Let_def emit_simps
        split: prod.splits sum.splits bool.splits)
  then show ?thesis using ms(2) by blast
qed

lemma main_after_lookup:
  assumes "get_coordinates env w = (Inr point, w1)"
    and "check_previous_output env (arg_city a) (arg_country a) (arg_theme a) (arg_distance a)
           (arg_size a) dpi (arg_format a) w1 = (r2, w2)"
  shows "prefix (events w2) (events (snd (main env a dpi w)))"
  using assms report_existing_extends generate_extends
  by (auto simp: main_def Let_def intro: fail_extends split: sum.splits json.splits)

lemma main_lookup_before_work:
  "\<exists>pre post. events (snd (main env a dpi w)) = events w @ pre @ post
       \<and> filter is_work pre = [] \<and> (post = [] \<or> is_lookup (hd post))"
proof -
  obtain r1 w1 where gc: "get_coordinates env w = (r1, w1)"
    by (cases "get_coordinates env w") auto
  obtain evs where geo: "events w1 = events w @ map (Retry Geocoder) evs"
    using get_coordinates_events [of env w] gc by auto
  show ?thesis
  proof (cases r1)
    case (Inl e)
    then have "events (snd (main env a dpi w))
        = events w @ (map (Retry Geocoder) evs @ [Print (Error_during_generation e)]) @ []"
      using gc geo by (simp add: main_def fail_def print_simps)
    moreover have "filter is_work (map (Retry Geocoder) evs
        @ [Print (Error_during_generation e)]) = []"
      by (simp add: filter_geocoder_work is_work_def)
    ultimately show ?thesis by blast
  next
    case (Inr point)
    obtain r2 w2 where cp: "check_previous_output env (arg_city a) (arg_country a)
        (arg_theme a) (arg_distance a) (arg_size a) dpi (arg_format a) w1 = (r2, w2)"
      by (cases "check_previous_output env (arg_city a) (arg_country a)
        (arg_theme a) (arg_distance a) (arg_size a) dpi (arg_format a) w1") auto
    obtain ms key where lk: "events w2 = events w1 @ ms @ [Lookup key]"
      and msw: "filter is_work ms = []"
      using check_previous_output_events [of env "arg_city a" "arg_country a" "arg_theme a"
          "arg_distance a" "arg_size a" dpi "arg_format a" w1] cp by auto
    have "prefix (events w2) (events (snd (main env a dpi w)))"
      using gc Inr cp main_after_lookup by blast
    then obtain more where "events (snd (main env a dpi w)) = events w2 @ more"
      by (auto simp: prefix_def)
    then have "events (snd (main env a dpi w))
        = events w @ (map (Retry Geocoder) evs @ ms) @ (Lookup key # more)"
      using lk geo by simp
    moreover have "filter is_work (map (Retry Geocoder) evs @ ms) = []"
      using msw by (simp add: filter_geocoder_work)
    moreover have "is_lookup (hd (Lookup key # more))" by simp
    ultimately show ?thesis by blast
  qed
qed

text \<open>
  Claim C1 says that a run whose lookup finds a record with an existing file does no
  fetch, no render and no registry write and reports the path and the generation time of
  the existing poster. The first part holds (\<open>main_short_circuit\<close>), and so do the order
  of lookup and work (\<open>main_lookup_before_work\<close>) and the full miss when the file is
  gone (\<open>main_file_missing\<close>). The report does not always come: with the process started
  in a directory that is not above the poster, \<^verbatim>\<open>relative_to(Path.cwd())\<close> raises
  while the report is printed; the run below finds the record and the file, prints the
  heading, then the error, and ends with status 1 without the file line and the time.
\<close>

theorem main_hit_outside_project:
  "fst (check_previous_output elsewhere_env ''Rome'' ''Italy'' ''noir'' 6000 ''default'' 300
          ''png'' generated_world) = Inr example_record
   \<and> py_getitem example_record ''path'' = Inr (JStr ''posters/rome_noir_20260122_100000.png'')
   \<and> path_exists generated_world
        (path_div (root_dir elsewhere_env) ''posters/rome_noir_20260122_100000.png'')
   \<and> fst (main elsewhere_env example_args 300 generated_world) = 1
   \<and> events (snd (main elsewhere_env example_args 300 generated_world))
       = [Retry Geocoder (Invoked 1),
          Lookup (make_output_key ''Rome'' ''Italy'' ''noir'' 6000 ''default'' 300 ''png''),
          Print Already_generated,
          Print (Error_during_generation ValueError)]"
  by code_simp

lemma main_hit_inside_project:
  "fst (main example_env example_args 300 generated_world) = 0
   \<and> events (snd (main example_env example_args 300 generated_world))
       = [Retry Geocoder (Invoked 1),
          Lookup (make_output_key ''Rome'' ''Italy'' ''noir'' 6000 ''default'' 300 ''png''),
          Print Already_generated,
          Print (Report_file ''posters/rome_noir_20260122_100000.png''),
          Print (Report_generated (JStr ''2026-01-22T10:00:00.000000''))]"
  by code_simp

end
